theory Spec2Isabelle
  imports Complex_Main
begin

section \<open>Numbers of the host language\<close>

text \<open>
  The evaluator computes with the \<^verbatim>\<open>number\<close> type of TypeScript. A number is modelled as
  one of the three special values \<^verbatim>\<open>NaN\<close>, \<^verbatim>\<open>Infinity\<close>, \<^verbatim>\<open>-Infinity\<close>, or a finite
  value, which is held as an exact rational. The rounding of the binary64 format is not
  modelled: a finite result is the exact one, so that the model and the program agree
  whenever every intermediate value is representable (small integers, for instance).
  The two zeros of the format are one value here, as they are for \<^verbatim>\<open>===\<close>.
\<close>

datatype jsnum = NaN | Infinity | NegInfinity | Fin rat

fun js_neg :: "jsnum \<Rightarrow> jsnum" where
  "js_neg NaN = NaN"
| "js_neg Infinity = NegInfinity"
| "js_neg NegInfinity = Infinity"
| "js_neg (Fin a) = Fin (- a)"

fun js_add :: "jsnum \<Rightarrow> jsnum \<Rightarrow> jsnum" where
  "js_add NaN _ = NaN"
| "js_add _ NaN = NaN"
| "js_add Infinity NegInfinity = NaN"
| "js_add NegInfinity Infinity = NaN"
| "js_add Infinity _ = Infinity"
| "js_add _ Infinity = Infinity"
| "js_add NegInfinity _ = NegInfinity"
| "js_add _ NegInfinity = NegInfinity"
| "js_add (Fin a) (Fin b) = Fin (a + b)"

definition js_sub :: "jsnum \<Rightarrow> jsnum \<Rightarrow> jsnum" where
  "js_sub a b = js_add a (js_neg b)"

text \<open>The sign of a number that is not \<^verbatim>\<open>NaN\<close>: \<open>-1\<close>, \<open>0\<close> or \<open>1\<close>.\<close>

fun js_sgn :: "jsnum \<Rightarrow> int" where
  "js_sgn NaN = 0"
| "js_sgn Infinity = 1"
| "js_sgn NegInfinity = - 1"
| "js_sgn (Fin a) = (if a < 0 then - 1 else if a = 0 then 0 else 1)"

definition signed_infinity :: "int \<Rightarrow> jsnum" where
  "signed_infinity s = (if s = 0 then NaN else if s < 0 then NegInfinity else Infinity)"

fun js_mul :: "jsnum \<Rightarrow> jsnum \<Rightarrow> jsnum" where
  "js_mul NaN _ = NaN"
| "js_mul _ NaN = NaN"
| "js_mul (Fin a) (Fin b) = Fin (a * b)"
| "js_mul x y = signed_infinity (js_sgn x * js_sgn y)"

fun js_div :: "jsnum \<Rightarrow> jsnum \<Rightarrow> jsnum" where
  "js_div NaN _ = NaN"
| "js_div _ NaN = NaN"
| "js_div (Fin a) (Fin b) = (if b = 0 then signed_infinity (js_sgn (Fin a)) else Fin (a / b))"
| "js_div (Fin a) _ = Fin 0"
| "js_div x (Fin b) = signed_infinity (js_sgn x * (if b < 0 then - 1 else 1))"
| "js_div _ _ = NaN"

definition isNaN :: "jsnum \<Rightarrow> bool" where
  "isNaN x = (x = NaN)"

section \<open>Conversion of a token to a number\<close>

text \<open>
  \<^verbatim>\<open>Number(token)\<close> applied to a string follows the string-to-number grammar of the
  language: white space is trimmed on both sides; what is left is empty (the value \<open>0\<close>),
  a decimal literal with an optional sign (digits, an optional fraction, an optional
  exponent, or the word \<^verbatim>\<open>Infinity\<close>), or an unsigned binary, octal or hexadecimal integer
  literal; every other string is \<^verbatim>\<open>NaN\<close>. A token is a list of code units below 256.
  \<^verbatim>\<open>Number(undefined)\<close> is \<^verbatim>\<open>NaN\<close>.
\<close>

definition isStrWhiteSpaceChar :: "char \<Rightarrow> bool" where
  "isStrWhiteSpaceChar c =
     (c \<in> set [CHR 0x09, CHR 0x0A, CHR 0x0B, CHR 0x0C, CHR 0x0D, CHR 0x20, CHR 0xA0])"

definition trimString :: "string \<Rightarrow> string" where
  "trimString s = rev (dropWhile isStrWhiteSpaceChar (rev (dropWhile isStrWhiteSpaceChar s)))"

definition digitValue :: "char \<Rightarrow> nat option" where
  "digitValue = map_of
     [(CHR ''0'', 0), (CHR ''1'', 1), (CHR ''2'', 2), (CHR ''3'', 3), (CHR ''4'', 4),
      (CHR ''5'', 5), (CHR ''6'', 6), (CHR ''7'', 7), (CHR ''8'', 8), (CHR ''9'', 9),
      (CHR ''a'', 10), (CHR ''b'', 11), (CHR ''c'', 12), (CHR ''d'', 13), (CHR ''e'', 14),
      (CHR ''f'', 15), (CHR ''A'', 10), (CHR ''B'', 11), (CHR ''C'', 12), (CHR ''D'', 13),
      (CHR ''E'', 14), (CHR ''F'', 15)]"

definition isDigitOf :: "nat \<Rightarrow> char \<Rightarrow> bool" where
  "isDigitOf base c = (case digitValue c of None \<Rightarrow> False | Some d \<Rightarrow> d < base)"

text \<open>The value of a digit string in a base, most significant digit first.\<close>

definition digitsValue :: "nat \<Rightarrow> string \<Rightarrow> nat" where
  "digitsValue base ds = foldl (\<lambda>acc c. acc * base + (case digitValue c of None \<Rightarrow> 0 | Some d \<Rightarrow> d)) 0 ds"

definition parseExponent :: "string \<Rightarrow> int option" where
  "parseExponent s =
     (case s of
        [] \<Rightarrow> Some 0
      | c # r \<Rightarrow>
          if c = CHR ''e'' \<or> c = CHR ''E'' then
            (let (neg, ds) = (case r of
                   [] \<Rightarrow> (False, [])
                 | d # t \<Rightarrow> if d = CHR ''+'' then (False, t)
                            else if d = CHR ''-'' then (True, t) else (False, r))
             in if ds \<noteq> [] \<and> list_all (isDigitOf 10) ds
                then Some (if neg then - int (digitsValue 10 ds) else int (digitsValue 10 ds))
                else None)
          else None)"

definition scale10 :: "rat \<Rightarrow> int \<Rightarrow> rat" where
  "scale10 m e = (if 0 \<le> e then m * 10 ^ nat e else m / 10 ^ nat (- e))"

definition strUnsignedDecimalLiteral :: "string \<Rightarrow> jsnum" where
  "strUnsignedDecimalLiteral s =
     (if s = ''Infinity'' then Infinity
      else
        let ip = takeWhile (isDigitOf 10) s;
            r1 = dropWhile (isDigitOf 10) s;
            (fp, r2) = (case r1 of
                 [] \<Rightarrow> ([], r1)
               | c # t \<Rightarrow> if c = CHR ''.''
                          then (takeWhile (isDigitOf 10) t, dropWhile (isDigitOf 10) t)
                          else ([], r1))
        in if ip = [] \<and> fp = [] then NaN
           else (case parseExponent r2 of
                   None \<Rightarrow> NaN
                 | Some e \<Rightarrow>
                     Fin (scale10 (of_nat (digitsValue 10 (ip @ fp))) (e - int (length fp)))))"

definition strDecimalLiteral :: "string \<Rightarrow> jsnum" where
  "strDecimalLiteral s =
     (case s of
        [] \<Rightarrow> NaN
      | c # r \<Rightarrow> if c = CHR ''+'' then strUnsignedDecimalLiteral r
                 else if c = CHR ''-'' then js_neg (strUnsignedDecimalLiteral r)
                 else strUnsignedDecimalLiteral s)"

definition nonDecimalIntegerLiteral :: "string \<Rightarrow> jsnum option" where
  "nonDecimalIntegerLiteral s =
     (case s of
        z # x # ds \<Rightarrow>
          (let base = (if x = CHR ''b'' \<or> x = CHR ''B'' then 2
                       else if x = CHR ''o'' \<or> x = CHR ''O'' then 8
                       else if x = CHR ''x'' \<or> x = CHR ''X'' then 16 else 0)
           in if z = CHR ''0'' \<and> base \<noteq> 0 \<and> ds \<noteq> [] \<and> list_all (isDigitOf base) ds
              then Some (Fin (of_nat (digitsValue base ds))) else None)
      | _ \<Rightarrow> None)"

definition StringToNumber :: "string \<Rightarrow> jsnum" where
  "StringToNumber s =
     (let t = trimString s
      in if t = [] then Fin 0
         else (case nonDecimalIntegerLiteral t of
                 Some v \<Rightarrow> v
               | None \<Rightarrow> strDecimalLiteral t))"

text \<open>
  A token read past the end of the formula is \<^verbatim>\<open>undefined\<close>, the value \<open>None\<close> here.
\<close>

definition Number :: "string option \<Rightarrow> jsnum" where
  "Number token = (case token of None \<Rightarrow> NaN | Some s \<Rightarrow> StringToNumber s)"

section \<open>The collaborators of the evaluator\<close>

text \<open>
  The classes \<^verbatim>\<open>Cell\<close> and \<^verbatim>\<open>SheetMemory\<close> and the catalogue \<^verbatim>\<open>ErrorMessages\<close> are
  imported by the evaluator from modules whose text is not among the sources of the
  evaluator. A cell is the record of what its three accessors return. The
  label predicate, the lookup of the sheet and the four messages the evaluator uses are
  the fields of a record \<open>host\<close>, which every function of the evaluator takes as an
  argument; both functions receive the current token, which may be \<^verbatim>\<open>undefined\<close>, and
  are taken to return.
\<close>

record Cell =
  getFormula :: "string list"
  getError :: string
  getValue :: jsnum

record host =
  isValidCellLabel :: "string option \<Rightarrow> bool"
  getCellByLabel :: "string option \<Rightarrow> Cell"
  emptyFormula :: string
  invalidFormula :: string
  invalidCell :: string
  divideByZero :: string

section \<open>The evaluator\<close>

record FormulaEvaluator =
  errorOccurred :: bool
  errorMessage :: string
  currentFormula :: "string list"
  currentTokenIndex :: nat
  result :: jsnum
  lastResult :: jsnum

definition currentToken :: "FormulaEvaluator \<Rightarrow> string option" where
  "currentToken st =
     (if currentTokenIndex st < length (currentFormula st)
      then Some (currentFormula st ! currentTokenIndex st) else None)"

definition advanceToken :: "FormulaEvaluator \<Rightarrow> FormulaEvaluator" where
  "advanceToken st = st\<lparr>currentTokenIndex := currentTokenIndex st + 1\<rparr>"

definition matchToken :: "host \<Rightarrow> string \<Rightarrow> FormulaEvaluator \<Rightarrow> bool \<times> FormulaEvaluator" where
  "matchToken h expected st =
     (if currentToken st = Some expected then (True, advanceToken st)
      else (False, st\<lparr>lastResult := NaN, errorMessage := invalidFormula h\<rparr>))"

definition isNumber :: "string option \<Rightarrow> bool" where
  "isNumber token = (\<not> isNaN (Number token))"

definition isCellReference :: "host \<Rightarrow> string option \<Rightarrow> bool" where
  "isCellReference h token = isValidCellLabel h token"

definition getCellValue :: "host \<Rightarrow> string option \<Rightarrow> jsnum \<times> string" where
  "getCellValue h token =
     (let cell = getCellByLabel h token;
          formula = getFormula cell;
          error = getError cell
      in if error \<noteq> '''' \<and> error \<noteq> emptyFormula h then (Fin 0, error)
         else if length formula = 0 then (Fin 0, invalidCell h)
         else (getValue cell, ''''))"

text \<open>
  The three mutually recursive methods of the descent. Each returns its number and the
  evaluator after it. The two \<^verbatim>\<open>while\<close> loops are the functions \<open>term_loop\<close> and
  \<open>expression_loop\<close>, which carry the local variable \<^verbatim>\<open>value\<close>.
\<close>

function factor :: "host \<Rightarrow> FormulaEvaluator \<Rightarrow> jsnum \<times> FormulaEvaluator"
  and "term" :: "host \<Rightarrow> FormulaEvaluator \<Rightarrow> jsnum \<times> FormulaEvaluator"
  and term_loop :: "host \<Rightarrow> jsnum \<Rightarrow> FormulaEvaluator \<Rightarrow> jsnum \<times> FormulaEvaluator"
  and expression :: "host \<Rightarrow> FormulaEvaluator \<Rightarrow> jsnum \<times> FormulaEvaluator"
  and expression_loop :: "host \<Rightarrow> jsnum \<Rightarrow> FormulaEvaluator \<Rightarrow> jsnum \<times> FormulaEvaluator"
where
  "factor h st =
     (if isNumber (currentToken st) then
        (let val = Number (currentToken st) in (val, advanceToken st))
      else if isCellReference h (currentToken st) then
        (let (val, error) = getCellValue h (currentToken st);
             st1 = (if error \<noteq> ''''
                    then st\<lparr>lastResult := NaN, errorMessage := error, errorOccurred := True\<rparr>
                    else st)
         in (val, advanceToken st1))
      else if currentToken st = Some ''('' then
        (let (val, st1) = expression h (advanceToken st);
             (matched, st2) = matchToken h '')'' st1
         in (val, st2))
      else
        (Fin 0, st\<lparr>lastResult := NaN, errorMessage := invalidFormula h, errorOccurred := True\<rparr>))"
| "term h st = (let (val, st1) = factor h st in term_loop h val st1)"
| "term_loop h val st =
     (if currentToken st = Some ''*'' \<or> currentToken st = Some ''/'' then
        (let op = currentToken st;
             st1 = advanceToken st
         in if op = Some ''*'' then
              (let (f, st2) = factor h st1 in term_loop h (js_mul val f) st2)
            else if op = Some ''/'' then
              (let (divisor, st2) = factor h st1
               in if divisor = Fin 0 then
                    (Infinity, st2\<lparr>errorMessage := divideByZero h, errorOccurred := True,
                                   lastResult := Infinity\<rparr>)
                  else term_loop h (js_div val divisor) st2)
            else term_loop h val st1)
      else (val, st))"
| "expression h st = (let (val, st1) = term h st in expression_loop h val st1)"
| "expression_loop h val st =
     (if currentToken st = Some ''+'' \<or> currentToken st = Some ''-'' then
        (let op = currentToken st;
             st1 = advanceToken st
         in if op = Some ''+'' then
              (let (t, st2) = term h st1 in expression_loop h (js_add val t) st2)
            else if op = Some ''-'' then
              (let (t, st2) = term h st1 in expression_loop h (js_sub val t) st2)
            else expression_loop h val st1)
      else (val, st))"
  by pat_completeness auto

text \<open>
  \<^verbatim>\<open>evaluate\<close> first resets four fields; \<open>result\<close> and \<open>lastResult\<close> are not among them.
\<close>

definition reset :: "string list \<Rightarrow> FormulaEvaluator \<Rightarrow> FormulaEvaluator" where
  "reset formula st =
     st\<lparr>currentFormula := formula, currentTokenIndex := 0,
        errorOccurred := False, errorMessage := ''''\<rparr>"

definition evaluate :: "host \<Rightarrow> string list \<Rightarrow> FormulaEvaluator \<Rightarrow> jsnum \<times> FormulaEvaluator" where
  "evaluate h formula st =
     (let st0 = reset formula st
      in if length formula = 0 then (Fin 0, st0\<lparr>errorMessage := emptyFormula h\<rparr>)
         else
           (let (val, st1) = expression h st0;
                st2 = st1\<lparr>result := val\<rparr>;
                st3 = st2\<lparr>lastResult := result st2\<rparr>
            in if currentTokenIndex st3 \<noteq> length formula \<and> \<not> errorOccurred st3
               then (Fin 0, st3\<lparr>errorMessage := invalidFormula h\<rparr>)
               else (result st3, st3)))"

text \<open>The evaluator as its constructor leaves it.\<close>

definition initial :: FormulaEvaluator where
  "initial = \<lparr>errorOccurred = False, errorMessage = '''', currentFormula = [],
     currentTokenIndex = 0, result = Fin 0, lastResult = Fin 0\<rparr>"

section \<open>A sample sheet\<close>

text \<open>
  Modelled from the spec: the catalogue \<^verbatim>\<open>ErrorMessages\<close>, the label predicate of
  \<^verbatim>\<open>Cell\<close> and the lookup of \<^verbatim>\<open>SheetMemory\<close> are not among the sources. The sample has
  four distinct messages, accepts three labels and holds a cell with a value (\<open>A1\<close>),
  a cell that was never given a formula (\<open>A2\<close>) and a cell with an error of its own
  (\<open>A3\<close>). It serves the concrete evaluations below; the general theorems hold for
  every host.
\<close>

definition sampleHost :: host where
  "sampleHost =
     \<lparr>isValidCellLabel = (\<lambda>token. token \<in> set [Some ''A1'', Some ''A2'', Some ''A3'']),
      getCellByLabel = (\<lambda>token.
         if token = Some ''A1'' then \<lparr>getFormula = [''5''], getError = '''', getValue = Fin 5\<rparr>
         else if token = Some ''A3''
           then \<lparr>getFormula = [''1'', ''/'', ''0''], getError = ''#DIV/0!'', getValue = Fin 0\<rparr>
         else \<lparr>getFormula = [], getError = ''#EMPTY!'', getValue = Fin 0\<rparr>),
      emptyFormula = ''#EMPTY!'',
      invalidFormula = ''#ERR'',
      invalidCell = ''#REF!'',
      divideByZero = ''#DIV/0!''\<rparr>"

section \<open>Expression trees\<close>

text \<open>
  The grammar of the descent as a datatype: a factor is a numeric literal, a cell
  reference or a parenthesised expression; a term is a chain of factors under \<open>*\<close> and
  \<open>/\<close>, an expression a chain of terms under \<open>+\<close> and \<open>-\<close>, both nested to the left.
\<close>

datatype factor_tree = Lit string | Ref string | Par expression_tree
  and term_tree = F factor_tree | Mul term_tree factor_tree | Div term_tree factor_tree
  and expression_tree = T term_tree | Add expression_tree term_tree
    | Sub expression_tree term_tree





text \<open>
  What a reference does to the evaluator when \<open>factor\<close> reads it: an error string that
  is not empty is latched.
\<close>

definition latch :: "host \<Rightarrow> string \<Rightarrow> FormulaEvaluator \<Rightarrow> FormulaEvaluator" where
  "latch h s st =
     (if snd (getCellValue h (Some s)) \<noteq> ''''
      then st\<lparr>lastResult := NaN, errorMessage := snd (getCellValue h (Some s)),
              errorOccurred := True\<rparr>
      else st)"



section \<open>Notions for the proofs\<close>

text \<open>The number of tokens that are still to be read.\<close>

definition remaining :: "FormulaEvaluator \<Rightarrow> nat" where
  "remaining st = length (currentFormula st) - currentTokenIndex st"

text \<open>A call keeps the formula and does not move the index back.\<close>

definition keeps_formula :: "FormulaEvaluator \<Rightarrow> jsnum \<times> FormulaEvaluator \<Rightarrow> bool" where
  "keeps_formula st r =
     (currentFormula (snd r) = currentFormula st \<and>
      currentTokenIndex st \<le> currentTokenIndex (snd r))"

text \<open>The tokens from the index on.\<close>

definition rest_tokens :: "FormulaEvaluator \<Rightarrow> string list" where
  "rest_tokens st = drop (currentTokenIndex st) (currentFormula st)"



section \<open>Termination of the descent\<close>

text \<open>
  A recursive call is made either on an evaluator that has advanced past a token it
  has just read, or on the evaluator another call returned. The second kind needs a fact
  about results before termination is known: wherever a call is defined, it keeps
  the formula and does not move the index back.
\<close>

lemma keeps_formula_refl:
  "currentFormula st' = currentFormula st \<Longrightarrow> currentTokenIndex st \<le> currentTokenIndex st' \<Longrightarrow>
     keeps_formula st (v, st')"
  by (simp add: keeps_formula_def)

lemma keeps_formula_trans:
  "keeps_formula st (v, st1) \<Longrightarrow> keeps_formula st1 r \<Longrightarrow> keeps_formula st r"
  by (auto simp: keeps_formula_def)

lemma keeps_formula_advance:
  "keeps_formula (advanceToken st) r \<Longrightarrow> keeps_formula st r"
  by (auto simp: keeps_formula_def advanceToken_def)

lemma descent_keeps_formula_partial:
  "factor_term_term_loop_expression_expression_loop_dom (Inl (Inl (h, st))) \<Longrightarrow>
     keeps_formula st (factor h st)"
  "factor_term_term_loop_expression_expression_loop_dom (Inl (Inr (h, st))) \<Longrightarrow>
     keeps_formula st (term h st)"
  "factor_term_term_loop_expression_expression_loop_dom (Inr (Inl (h, val, st))) \<Longrightarrow>
     keeps_formula st (term_loop h val st)"
  "factor_term_term_loop_expression_expression_loop_dom (Inr (Inr (Inl (h, st)))) \<Longrightarrow>
     keeps_formula st (expression h st)"
  "factor_term_term_loop_expression_expression_loop_dom (Inr (Inr (Inr (h, val, st)))) \<Longrightarrow>
     keeps_formula st (expression_loop h val st)"
proof (induction rule: factor_term_term_loop_expression_expression_loop.pinduct)
  case (1 h st)
  show ?case
    using 1(2) 
    apply (simp add: factor.psimps[OF 1(1)] Let_def split: prod.splits)
    apply (auto simp: keeps_formula_def advanceToken_def matchToken_def split: if_splits)
    done
next
  case (2 h st)
  show ?case
    using 2(2,3)
    apply (simp add: "term.psimps"[OF 2(1)] split: prod.splits)
    apply (auto intro: keeps_formula_trans)
    done
next
  case (3 h val st)
  note dom = 3(1)
  consider (mul) "currentToken st = Some ''*''" | (dvd) "currentToken st = Some ''/''"
    | (stop) "currentToken st \<noteq> Some ''*''" "currentToken st \<noteq> Some ''/''"
    by blast
  then show ?case
  proof cases
    case mul
    obtain f st2 where F: "factor h (advanceToken st) = (f, st2)"
      by force
    have k1: "keeps_formula (advanceToken st) (f, st2)"
      using 3(2)[of "currentToken st" "advanceToken st"] mul F by simp
    have k2: "keeps_formula st2 (term_loop h (js_mul val f) st2)"
      using 3(3)[of "currentToken st" "advanceToken st" "(f, st2)" f st2] mul F by simp
    have "term_loop h val st = term_loop h (js_mul val f) st2"
      using mul F by (simp add: term_loop.psimps[OF dom])
    with k1 k2 show ?thesis
      by (auto intro: keeps_formula_advance keeps_formula_trans)
  next
    case dvd
    obtain d st2 where F: "factor h (advanceToken st) = (d, st2)"
      by force
    have k1: "keeps_formula (advanceToken st) (d, st2)"
      using 3(4)[of "currentToken st" "advanceToken st"] dvd F by simp
    show ?thesis
    proof (cases "d = Fin 0")
      case True
      then have "term_loop h val st =
          (Infinity, st2\<lparr>errorMessage := divideByZero h, errorOccurred := True,
                         lastResult := Infinity\<rparr>)"
        using dvd F by (simp add: term_loop.psimps[OF dom])
      with k1 show ?thesis
        by (simp add: keeps_formula_def advanceToken_def)
    next
      case False
      have k2: "keeps_formula st2 (term_loop h (js_div val d) st2)"
        using 3(5)[of "currentToken st" "advanceToken st" "(d, st2)" d st2] dvd F False by simp
      have "term_loop h val st = term_loop h (js_div val d) st2"
        using dvd F False by (simp add: term_loop.psimps[OF dom])
      with k1 k2 show ?thesis
        by (auto intro: keeps_formula_advance keeps_formula_trans)
    qed
  next
    case stop
    then have "term_loop h val st = (val, st)"
      by (simp add: term_loop.psimps[OF dom])
    then show ?thesis
      by (simp add: keeps_formula_def)
  qed
next
  case (4 h st)
  show ?case
    using 4(2,3)
    apply (simp add: expression.psimps[OF 4(1)] split: prod.splits)
    apply (auto intro: keeps_formula_trans)
    done
next
  case (5 h val st)
  note dom = 5(1)
  consider (plus) "currentToken st = Some ''+''" | (minus) "currentToken st = Some ''-''"
    | (stop) "currentToken st \<noteq> Some ''+''" "currentToken st \<noteq> Some ''-''"
    by blast
  then show ?case
  proof cases
    case plus
    obtain t st2 where T: "term h (advanceToken st) = (t, st2)"
      by force
    have k1: "keeps_formula (advanceToken st) (t, st2)"
      using 5(2)[of "currentToken st" "advanceToken st"] plus T by simp
    have k2: "keeps_formula st2 (expression_loop h (js_add val t) st2)"
      using 5(3)[of "currentToken st" "advanceToken st" "(t, st2)" t st2] plus T by simp
    have "expression_loop h val st = expression_loop h (js_add val t) st2"
      using plus T by (simp add: expression_loop.psimps[OF dom])
    with k1 k2 show ?thesis
      by (auto intro: keeps_formula_advance keeps_formula_trans)
  next
    case minus
    obtain t st2 where T: "term h (advanceToken st) = (t, st2)"
      by force
    have k1: "keeps_formula (advanceToken st) (t, st2)"
      using 5(4)[of "currentToken st" "advanceToken st"] minus T by simp
    have k2: "keeps_formula st2 (expression_loop h (js_sub val t) st2)"
      using 5(5)[of "currentToken st" "advanceToken st" "(t, st2)" t st2] minus T by simp
    have "expression_loop h val st = expression_loop h (js_sub val t) st2"
      using minus T by (simp add: expression_loop.psimps[OF dom])
    with k1 k2 show ?thesis
      by (auto intro: keeps_formula_advance keeps_formula_trans)
  next
    case stop
    then have "expression_loop h val st = (val, st)"
      by (simp add: expression_loop.psimps[OF dom])
    then show ?thesis
      by (simp add: keeps_formula_def)
  qed
qed

lemma remaining_advanceToken:
  "currentToken st = Some t \<Longrightarrow> remaining (advanceToken st) < remaining st"
  by (auto simp: remaining_def advanceToken_def currentToken_def split: if_splits)

lemma keeps_formula_remaining:
  "keeps_formula st (v, st') \<Longrightarrow> remaining st' \<le> remaining st"
  by (auto simp: keeps_formula_def remaining_def)

text \<open>
  The measure is the number of unread tokens, with the five functions ranked so that a
  call on the same evaluator goes to a function of lower rank.
\<close>

lemma descent_terminates: "All factor_term_term_loop_expression_expression_loop_dom"
proof (relation "measure (\<lambda>x. case x of
      Inl (Inl (h, st)) \<Rightarrow> 5 * remaining st
    | Inl (Inr (h, st)) \<Rightarrow> 5 * remaining st + 2
    | Inr (Inl (h, v, st)) \<Rightarrow> 5 * remaining st + 1
    | Inr (Inr (Inl (h, st))) \<Rightarrow> 5 * remaining st + 4
    | Inr (Inr (Inr (h, v, st))) \<Rightarrow> 5 * remaining st + 3)", goal_cases)
  case 1
  show ?case by simp
next
  case (2 h st)
  then show ?case
    using remaining_advanceToken[of st "''(''"] by simp
next
  case (3 h st)
  show ?case by simp
next
  case (4 h st x xa y)
  have eq: "factor h st = (xa, y)"
    using 4(1,2) by simp
  have "remaining y \<le> remaining st"
    using descent_keeps_formula_partial(1)[OF 4(3)] by (simp add: eq keeps_formula_remaining)
  with eq show ?case by simp
next
  case (5 h val st x xa)
  then show ?case
    using remaining_advanceToken[of st "''*''"] by simp
next
  case (6 h val st x xa xb xc y)
  then have tok: "currentToken st = Some ''*''"
    and eq: "factor h (advanceToken st) = (xc, y)"
    and dom: "factor_term_term_loop_expression_expression_loop_dom (Inl (Inl (h, advanceToken st)))"
    by simp_all
  have "keeps_formula (advanceToken st) (xc, y)"
    using descent_keeps_formula_partial(1)[OF dom] by (simp add: eq)
  then have "remaining y \<le> remaining (advanceToken st)"
    by (rule keeps_formula_remaining)
  with remaining_advanceToken[OF tok] show ?case
    by simp
next
  case (7 h val st x xa)
  then show ?case
    using remaining_advanceToken[of st "''/''"] by simp
next
  case (8 h val st x xa xb xc y)
  then have tok: "currentToken st = Some ''/''"
    and eq: "factor h (advanceToken st) = (xc, y)"
    and dom: "factor_term_term_loop_expression_expression_loop_dom (Inl (Inl (h, advanceToken st)))"
    by simp_all
  have "keeps_formula (advanceToken st) (xc, y)"
    using descent_keeps_formula_partial(1)[OF dom] by (simp add: eq)
  then have "remaining y \<le> remaining (advanceToken st)"
    by (rule keeps_formula_remaining)
  with remaining_advanceToken[OF tok] show ?case
    by simp
next
  case (9 h val st x xa)
  then show ?case
    using remaining_advanceToken[of st] by auto
next
  case (10 h st)
  show ?case by simp
next
  case (11 h st x xa y)
  have eq: "term h st = (xa, y)"
    using 11(1,2) by simp
  have "remaining y \<le> remaining st"
    using descent_keeps_formula_partial(2)[OF 11(3)] by (simp add: eq keeps_formula_remaining)
  with eq show ?case by simp
next
  case (12 h val st x xa)
  then show ?case
    using remaining_advanceToken[of st "''+''"] by simp
next
  case (13 h val st x xa xb xc y)
  then have tok: "currentToken st = Some ''+''"
    and eq: "term h (advanceToken st) = (xc, y)"
    and dom: "factor_term_term_loop_expression_expression_loop_dom (Inl (Inr (h, advanceToken st)))"
    by simp_all
  have "keeps_formula (advanceToken st) (xc, y)"
    using descent_keeps_formula_partial(2)[OF dom] by (simp add: eq)
  then have "remaining y \<le> remaining (advanceToken st)"
    by (rule keeps_formula_remaining)
  with remaining_advanceToken[OF tok] show ?case
    by simp
next
  case (14 h val st x xa)
  then show ?case
    using remaining_advanceToken[of st "''-''"] by simp
next
  case (15 h val st x xa xb xc y)
  then have tok: "currentToken st = Some ''-''"
    and eq: "term h (advanceToken st) = (xc, y)"
    and dom: "factor_term_term_loop_expression_expression_loop_dom (Inl (Inr (h, advanceToken st)))"
    by simp_all
  have "keeps_formula (advanceToken st) (xc, y)"
    using descent_keeps_formula_partial(2)[OF dom] by (simp add: eq)
  then have "remaining y \<le> remaining (advanceToken st)"
    by (rule keeps_formula_remaining)
  with remaining_advanceToken[OF tok] show ?case
    by simp
next
  case (16 h val st x xa)
  then show ?case
    using remaining_advanceToken[of st] by auto
qed

termination factor
  by (rule descent_terminates)

declare factor.simps [simp del] "term.simps" [simp del] term_loop.simps [simp del]
  expression.simps [simp del] expression_loop.simps [simp del]

section \<open>The descent on the tokens of a tree\<close>



lemma rest_tokens_advanceToken [simp]:
  "rest_tokens (advanceToken st) = tl (rest_tokens st)"
  by (simp add: rest_tokens_def advanceToken_def drop_Suc tl_drop)

lemma rest_tokens_latch [simp]: "rest_tokens (latch h s st) = rest_tokens st"
  by (simp add: rest_tokens_def latch_def)


lemma rest_tokens_reset [simp]: "rest_tokens (reset formula st) = formula"
  by (simp add: rest_tokens_def reset_def)












section \<open>The claims\<close>

subsection \<open>The empty formula\<close>

text \<open>
  Claim C8. For the empty token sequence \<open>evaluate\<close> returns \<open>0\<close> and sets the error
  message to the empty-formula message; no parse is attempted, and \<open>result\<close> and
  \<open>lastResult\<close> keep the values the evaluator had before the call.
\<close>

theorem evaluate_empty_formula:
  "evaluate h [] st =
     (Fin 0, st\<lparr>currentFormula := [], currentTokenIndex := 0, errorOccurred := False,
                errorMessage := emptyFormula h\<rparr>)
   \<and> result (snd (evaluate h [] st)) = result st
   \<and> lastResult (snd (evaluate h [] st)) = lastResult st"
  by (simp add: evaluate_def reset_def)

theorem evaluate_empty_formula_witness:
  "evaluate sampleHost [] (snd (evaluate sampleHost [''5''] initial)) =
     (Fin 0, \<lparr>errorOccurred = False, errorMessage = ''#EMPTY!'', currentFormula = [],
        currentTokenIndex = 0, result = Fin 5, lastResult = Fin 5\<rparr>)"
proof -
  have "snd (evaluate sampleHost [''5''] initial) =
      \<lparr>errorOccurred = False, errorMessage = '''', currentFormula = [''5''],
        currentTokenIndex = 1, result = Fin 5, lastResult = Fin 5\<rparr>"
    by code_simp
  then show ?thesis
    using evaluate_empty_formula[of sampleHost "snd (evaluate sampleHost [''5''] initial)"]
    by (simp add: sampleHost_def)
qed

subsection \<open>Tokens left over\<close>

text \<open>
  Claim C7. When the formula is not empty, the descent ends with the error flag unset
  and tokens are left unread, \<open>evaluate\<close> sets the error message to the invalid-formula
  message and returns \<open>0\<close> instead of the number the descent computed.
\<close>

theorem trailing_tokens_invalid:
  assumes "formula \<noteq> []"
    and "expression h (reset formula st) = (val, st1)"
    and "\<not> errorOccurred st1"
    and "currentTokenIndex st1 < length formula"
  shows "fst (evaluate h formula st) = Fin 0
    \<and> errorMessage (snd (evaluate h formula st)) = invalidFormula h"
  using assms by (simp add: evaluate_def)

theorem trailing_tokens_invalid_witness:
  "fst (evaluate sampleHost [''3'', ''+'', ''4'', '')''] initial) = Fin 0
   \<and> errorMessage (snd (evaluate sampleHost [''3'', ''+'', ''4'', '')''] initial)) = ''#ERR''"
proof -
  let ?st1 = "\<lparr>errorOccurred = False, errorMessage = '''',
      currentFormula = [''3'', ''+'', ''4'', '')''], currentTokenIndex = 3,
      result = Fin 0, lastResult = Fin 0\<rparr>"
  have e: "expression sampleHost (reset [''3'', ''+'', ''4'', '')''] initial) = (Fin 7, ?st1)"
    by code_simp
  have "invalidFormula sampleHost = ''#ERR''"
    by (simp add: sampleHost_def)
  then show ?thesis
    using trailing_tokens_invalid[OF _ e] by simp
qed

subsection \<open>The accessor \<open>result\<close>\<close>

text \<open>
  Claim C3, as stated: after any call the accessor \<open>result\<close> holds the number last
  computed, except that the empty formula and left-over tokens force it to \<open>0\<close>. The
  evaluator does not do the second part: on \<^verbatim>\<open>3 + 4 )\<close> the call returns \<open>0\<close> with the
  invalid-formula message, while \<open>result\<close> is \<open>7\<close>; on the empty formula, after a call
  on \<^verbatim>\<open>5\<close>, the call returns \<open>0\<close> while \<open>result\<close> is still \<open>5\<close>.
\<close>

theorem result_forced_zero_counterexample:
  "fst (evaluate sampleHost [''3'', ''+'', ''4'', '')''] initial) = Fin 0
   \<and> errorMessage (snd (evaluate sampleHost [''3'', ''+'', ''4'', '')''] initial))
       = invalidFormula sampleHost
   \<and> result (snd (evaluate sampleHost [''3'', ''+'', ''4'', '')''] initial)) = Fin 7
   \<and> result (snd (evaluate sampleHost [''3'', ''+'', ''4'', '')''] initial)) \<noteq> Fin 0
   \<and> fst (evaluate sampleHost [] (snd (evaluate sampleHost [''5''] initial))) = Fin 0
   \<and> result (snd (evaluate sampleHost [] (snd (evaluate sampleHost [''5''] initial)))) = Fin 5"
  by code_simp

text \<open>
  Claim C3, amended: after a call on a formula that is not empty, \<open>result\<close> is the number
  the descent computed, whether or not tokens are left over; after a call on the empty
  formula it is what it was before. Only the returned number is \<open>0\<close> in the two cases.
\<close>

theorem result_after_evaluate:
  "result (snd (evaluate h formula st)) =
     (if formula = [] then result st else fst (expression h (reset formula st)))"
  by (simp add: evaluate_def reset_def Let_def split: prod.splits)

theorem result_after_evaluate_witness:
  "result (snd (evaluate sampleHost [''3'', ''+'', ''4'', '')''] initial)) = Fin 7"
proof -
  have "fst (expression sampleHost (reset [''3'', ''+'', ''4'', '')''] initial)) = Fin 7"
    by code_simp
  then show ?thesis
    using result_after_evaluate[of sampleHost "[''3'', ''+'', ''4'', '')'']" initial]
    by simp
qed

subsection \<open>The accessor \<open>lastResult\<close>\<close>




subsection \<open>References to cells\<close>

text \<open>
  Claim C6. \<open>getCellValue\<close> follows the three rules of the lookup: an error of the cell
  that is neither empty nor the empty-formula message gives \<open>(0, error)\<close>; otherwise an
  empty formula gives \<open>0\<close> with the invalid-cell message; otherwise the value of the cell
  comes with the empty string. When the string it returns is not empty, \<open>factor\<close>
  latches that string as the error message, sets the flag, and its value is the \<open>0\<close>
  that was returned.
\<close>

theorem getCellValue_rules:
  "(getError (getCellByLabel h token) \<noteq> '''' \<and>
    getError (getCellByLabel h token) \<noteq> emptyFormula h \<longrightarrow>
      getCellValue h token = (Fin 0, getError (getCellByLabel h token)))
   \<and> (\<not> (getError (getCellByLabel h token) \<noteq> '''' \<and>
          getError (getCellByLabel h token) \<noteq> emptyFormula h) \<and>
       getFormula (getCellByLabel h token) = [] \<longrightarrow>
      getCellValue h token = (Fin 0, invalidCell h))
   \<and> (\<not> (getError (getCellByLabel h token) \<noteq> '''' \<and>
          getError (getCellByLabel h token) \<noteq> emptyFormula h) \<and>
       getFormula (getCellByLabel h token) \<noteq> [] \<longrightarrow>
      getCellValue h token = (getValue (getCellByLabel h token), ''''))
   \<and> (\<not> isNumber (currentToken st) \<and> isCellReference h (currentToken st) \<and>
       snd (getCellValue h (currentToken st)) \<noteq> '''' \<longrightarrow>
      fst (getCellValue h (currentToken st)) = Fin 0 \<and>
      factor h st =
        (Fin 0, advanceToken (st\<lparr>lastResult := NaN,
           errorMessage := snd (getCellValue h (currentToken st)),
           errorOccurred := True\<rparr>)))"
  by (auto simp: getCellValue_def Let_def factor.simps[of h st] split: prod.splits)

theorem getCellValue_rules_witness:
  "getCellValue sampleHost (Some ''A3'') = (Fin 0, ''#DIV/0!'')
   \<and> getCellValue sampleHost (Some ''A2'') = (Fin 0, ''#REF!'')
   \<and> getCellValue sampleHost (Some ''A1'') = (Fin 5, '''')
   \<and> factor sampleHost (reset [''A3''] initial) =
       (Fin 0, \<lparr>errorOccurred = True, errorMessage = ''#DIV/0!'', currentFormula = [''A3''],
          currentTokenIndex = 1, result = Fin 0, lastResult = NaN\<rparr>)"
proof -
  let ?st = "reset [''A3''] initial"
  have tok: "currentToken ?st = Some ''A3''"
    by code_simp
  have n: "\<not> isNumber (Some ''A3'')"
    by code_simp
  have c: "isCellReference sampleHost (Some ''A3'')"
    by code_simp
  have cells: "getCellByLabel sampleHost (Some ''A3'') =
      \<lparr>getFormula = [''1'', ''/'', ''0''], getError = ''#DIV/0!'', getValue = Fin 0\<rparr>"
    "getCellByLabel sampleHost (Some ''A2'') =
      \<lparr>getFormula = [], getError = ''#EMPTY!'', getValue = Fin 0\<rparr>"
    "getCellByLabel sampleHost (Some ''A1'') =
      \<lparr>getFormula = [''5''], getError = '''', getValue = Fin 5\<rparr>"
    "emptyFormula sampleHost = ''#EMPTY!''" "invalidCell sampleHost = ''#REF!''"
    by (simp_all add: sampleHost_def)
  have a3: "getCellValue sampleHost (Some ''A3'') = (Fin 0, ''#DIV/0!'')"
    using getCellValue_rules[of sampleHost "Some ''A3''" ?st] cells by simp
  have a2: "getCellValue sampleHost (Some ''A2'') = (Fin 0, ''#REF!'')"
    using getCellValue_rules[of sampleHost "Some ''A2''" ?st] cells by simp
  have a1: "getCellValue sampleHost (Some ''A1'') = (Fin 5, '''')"
    using getCellValue_rules[of sampleHost "Some ''A1''" ?st] cells by simp
  have "factor sampleHost ?st =
      (Fin 0, advanceToken (?st\<lparr>lastResult := NaN, errorMessage := ''#DIV/0!'',
         errorOccurred := True\<rparr>))"
    using getCellValue_rules[of sampleHost "Some ''A3''" ?st] tok n c a3 by simp
  then show ?thesis
    using a1 a2 a3 by (simp add: reset_def initial_def advanceToken_def)
qed

subsection \<open>Tokens of white space\<close>

lemma trimString_whitespace:
  "list_all isStrWhiteSpaceChar s \<Longrightarrow> trimString s = []"
proof -
  assume "list_all isStrWhiteSpaceChar s"
  then have d: "dropWhile isStrWhiteSpaceChar s = []"
    by (simp add: list_all_iff)
  show ?thesis
    unfolding trimString_def d by simp
qed

text \<open>
  Claim C10. A token that is empty or consists of white space satisfies \<open>isNumber\<close>,
  since \<open>Number\<close> gives \<open>0\<close> for it; \<open>factor\<close> reads it as the literal \<open>0\<close> and only
  advances: no error is latched, whatever the label predicate says, and the fallback
  branch is not reached.
\<close>

theorem whitespace_token_is_zero:
  assumes "list_all isStrWhiteSpaceChar t"
    and "currentToken st = Some t"
  shows "isNumber (Some t) \<and> Number (Some t) = Fin 0 \<and> factor h st = (Fin 0, advanceToken st)"
proof -
  have n: "Number (Some t) = Fin 0"
    using assms(1) by (simp add: Number_def StringToNumber_def trimString_whitespace)
  then have "isNumber (Some t)"
    by (simp add: isNumber_def isNaN_def)
  with n assms(2) show ?thesis
    by (simp add: factor.simps[of h st])
qed

theorem whitespace_token_is_zero_witness:
  "isNumber (Some '' '') \<and> Number (Some '''') = Fin 0
   \<and> fst (evaluate sampleHost ['''', ''+'', [CHR 0x20, CHR 0x09]] initial) = Fin 0
   \<and> errorMessage (snd (evaluate sampleHost ['''', ''+'', [CHR 0x20, CHR 0x09]] initial)) = ''''"
proof -
  let ?st = "reset ['' ''] initial"
  have w: "list_all isStrWhiteSpaceChar '' ''" "list_all isStrWhiteSpaceChar ''''"
    by (simp_all add: isStrWhiteSpaceChar_def)
  have t: "currentToken ?st = Some '' ''"
    by code_simp
  let ?st0 = "reset [''''] initial"
  have t0: "currentToken ?st0 = Some ''''"
    by code_simp
  have "fst (evaluate sampleHost ['''', ''+'', [CHR 0x20, CHR 0x09]] initial) = Fin 0
   \<and> errorMessage (snd (evaluate sampleHost ['''', ''+'', [CHR 0x20, CHR 0x09]] initial)) = ''''"
    by code_simp
  then show ?thesis
    using whitespace_token_is_zero[OF w(1) t, of sampleHost]
      whitespace_token_is_zero[OF w(2) t0, of sampleHost]
    by simp
qed

subsection \<open>Arithmetic on literals\<close>





subsection \<open>A parenthesis that is not closed\<close>




subsection \<open>Division by zero\<close>




subsection \<open>Totality\<close>

text \<open>
  Claim C9. \<open>evaluate\<close> is total: for every host, formula and evaluator, the descent it
  starts lies in the accessible part of the call relation of the five functions, so
  every chain of calls from it is finite; the model has no branch that raises, and every
  failure shows in the error message and the numbers only. This includes the fallback
  branch of \<open>factor\<close>, which returns \<open>0\<close> and latches the invalid-formula message
  without advancing.
\<close>

theorem evaluate_terminates:
  "factor_term_term_loop_expression_expression_loop_dom
     (Inr (Inr (Inl (h, reset formula st))))
   \<and> (\<not> isNumber (currentToken st') \<and> \<not> isCellReference h (currentToken st') \<and>
       currentToken st' \<noteq> Some ''('' \<longrightarrow>
      factor h st' =
        (Fin 0, st'\<lparr>lastResult := NaN, errorMessage := invalidFormula h,
                    errorOccurred := True\<rparr>))"
  using descent_terminates by (simp add: factor.simps[of h st'])

theorem evaluate_terminates_witness:
  "factor_term_term_loop_expression_expression_loop_dom
     (Inr (Inr (Inl (sampleHost, reset ['')'', ''*'', ''(''] initial))))
   \<and> factor sampleHost (reset ['')'', ''*'', ''(''] initial) =
      (Fin 0, \<lparr>errorOccurred = True, errorMessage = ''#ERR'',
         currentFormula = ['')'', ''*'', ''(''], currentTokenIndex = 0,
         result = Fin 0, lastResult = NaN\<rparr>)
   \<and> evaluate sampleHost ['')'', ''*'', ''(''] initial =
      (Fin 0, \<lparr>errorOccurred = True, errorMessage = ''#ERR'',
         currentFormula = ['')'', ''*'', ''(''], currentTokenIndex = 0,
         result = Fin 0, lastResult = Fin 0\<rparr>)"
proof -
  let ?st = "reset ['')'', ''*'', ''(''] initial"
  have c: "\<not> isNumber (currentToken ?st)" "\<not> isCellReference sampleHost (currentToken ?st)"
    "currentToken ?st \<noteq> Some ''(''"
    by code_simp+
  have i: "invalidFormula sampleHost = ''#ERR''"
    by (simp add: sampleHost_def)
  have e: "evaluate sampleHost ['')'', ''*'', ''(''] initial =
      (Fin 0, \<lparr>errorOccurred = True, errorMessage = ''#ERR'',
         currentFormula = ['')'', ''*'', ''(''], currentTokenIndex = 0,
         result = Fin 0, lastResult = Fin 0\<rparr>)"
    by code_simp
  show ?thesis
    using evaluate_terminates[of sampleHost "['')'', ''*'', ''('']" initial ?st] c i e
    by (simp add: reset_def initial_def)
qed

end
